theory Spec2Isabelle
  imports Main "HOL-Library.Multiset" "HOL-Library.Log_Nat"
begin

section \<open>JavaScript numbers\<close>

text \<open>
  The sort key of an environment is a JavaScript number, an IEEE-754 binary64 value.
  A finite number is modelled by the rational it denotes (every finite double is a
  dyadic rational; \<open>-0\<close> and \<open>0\<close> are one value). \<^verbatim>\<open>a + b\<close> and \<^verbatim>\<open>a - b\<close> are
  the exact sum and difference rounded to the nearest double, ties to the even
  significand, as IEEE-754 prescribes for the default rounding mode.

  \<open>exponent q\<close> is the binary exponent \<open>\<lfloor>log\<^sub>2 \<bar>q\<bar>\<rfloor>\<close> of a non-zero \<open>q\<close>, computed on
  integers: for \<open>1 \<le> \<bar>q\<bar>\<close> it is the bit length of \<open>\<lfloor>\<bar>q\<bar>\<rfloor>\<close> minus one, and below one it is
  \<open>- \<lceil>log\<^sub>2 (1 / \<bar>q\<bar>)\<rceil>\<close>. A double has 53 significant bits, so the spacing of the
  doubles around \<open>q\<close> is \<open>2\<close> to the power \<open>exponent q - 52\<close>, and never less than
  \<open>2\<close> to the power \<open>- 1074\<close> (the subnormal range). A result of magnitude
  \<open>2 ^ 1024\<close> or more stands for an infinity; adding or subtracting one from a double
  does not produce one. \<^verbatim>\<open>NaN\<close> and the infinities are not sort keys of the model.
\<close>

definition pow2 :: "int \<Rightarrow> rat" where
  "pow2 p = (if 0 \<le> p then 2 ^ nat p else 1 / 2 ^ nat (- p))"

definition exponent :: "rat \<Rightarrow> int" where
  "exponent q =
     (if 1 \<le> \<bar>q\<bar> then bitlen \<lfloor>\<bar>q\<bar>\<rfloor> - 1 else - bitlen (\<lceil>1 / \<bar>q\<bar>\<rceil> - 1))"

definition round_half_even :: "rat \<Rightarrow> int" where
  "round_half_even x =
     (let f = \<lfloor>x\<rfloor>; r = x - of_int f
      in if r < 1 / 2 then f
         else if 1 / 2 < r then f + 1
         else if even f then f else f + 1)"

definition round_double :: "rat \<Rightarrow> rat" where
  "round_double q =
     (if q = 0 then 0
      else let p = max (exponent q) (- 1022) - 52
           in of_int (round_half_even (q / pow2 p)) * pow2 p)"

definition js_add :: "rat \<Rightarrow> rat \<Rightarrow> rat" where
  "js_add a b = round_double (a + b)"

definition js_sub :: "rat \<Rightarrow> rat \<Rightarrow> rat" where
  "js_sub a b = round_double (a - b)"

section \<open>Data model\<close>

text \<open>
  The records the modal handles, with the fields
  \<^verbatim>\<open>workspace-environments-edit-modal.tsx\<close> reads or writes. The structured
  data document of an environment (\<^verbatim>\<open>data\<close>, \<^verbatim>\<open>dataPropertyOrder\<close>) is
  only passed between the nested editor and the store and is left out. The sort key is
  a finite JavaScript number, integral or fractional.
  A \<^verbatim>\<open>string | null\<close> is a \<open>string option\<close> with \<open>None\<close> for \<^verbatim>\<open>null\<close>.
\<close>

record Environment =
  env_id :: string
  color :: "string option"
  name :: string
  isPrivate :: bool
  parentId :: "string option"
  metaSortKey :: rat

record WorkspaceMeta =
  meta_id :: string
  activeEnvironmentId :: "string option"

record Workspace =
  workspace_id :: string

text \<open>\<^verbatim>\<open>interface State\<close>, the component's hook state.\<close>

record State =
  baseEnvironment :: "Environment option"
  selectedEnvironmentId :: "string option"

text \<open>
  \<^verbatim>\<open>Partial<Environment>\<close> as the call sites of \<^verbatim>\<open>updateEnvironment\<close> build it:
  \<^verbatim>\<open>{ metaSortKey }\<close>, \<^verbatim>\<open>{ name }\<close> and \<^verbatim>\<open>{ color }\<close>.
\<close>

datatype EnvironmentPatch =
    PatchMetaSortKey rat
  | PatchName string
  | PatchColor "string option"

text \<open>\<^verbatim>\<open>e.target.dropPosition\<close> of a reorder event.\<close>

datatype DropPosition = On | Before | After

record ReorderEvent =
  keys :: "string list"
  target_key :: string
  dropPosition :: DropPosition

datatype error = TypeError

section \<open>Collaborators\<close>

text \<open>
  The persistence layer and the modal widget are imported by the file and owned
  elsewhere. Every call the component issues is appended to a trace, in program order,
  so that "before" and "then" are statements about positions in that list. A call of
  \<^verbatim>\<open>setState\<close> is recorded with the state it produces.
\<close>

datatype call =
    WorkspaceMetaUpdate WorkspaceMeta "string option"
  | EnvironmentRemove Environment
  | EnvironmentCreate string bool
  | EnvironmentGetById string
  | EnvironmentUpdate Environment EnvironmentPatch
  | EnvironmentGetOrCreateForParentId string
  | ModalShow
  | ModalHide
  | SetState State

text \<open>
  What the environment store answers. The functions are parameters of the handlers:
  the file only awaits their results.
\<close>

record Store =
  models_environment_getById :: "string \<Rightarrow> Environment option"
  models_environment_update :: "Environment \<Rightarrow> EnvironmentPatch \<Rightarrow> Environment"
  models_environment_create :: "string \<Rightarrow> bool \<Rightarrow> Environment"
  models_environment_getOrCreateForParentId :: "string \<Rightarrow> Environment"

text \<open>
  One render of the component together with what it observes. The environments the
  selector returns are objects shared with the store's cache, and \<^verbatim>\<open>onReorder\<close>
  assigns to a field of one of them, so they live in an explicit heap and
  \<open>environments\<close> lists their addresses. \<open>editorIsValid\<close> is
  \<^verbatim>\<open>environmentEditorRef.current?.isValid()\<close>: \<open>None\<close> while the ref is unattached.
  \<open>modalRef\<close> says whether \<^verbatim>\<open>modalRef.current\<close> is attached.
\<close>

record World =
  workspace :: "Workspace option"
  workspaceMeta :: "WorkspaceMeta option"
  heap :: "nat \<Rightarrow> Environment"
  environments :: "nat list"
  state :: State
  editorIsValid :: "bool option"
  modalRef :: bool
  trace :: "call list"

definition perform :: "call \<Rightarrow> World \<Rightarrow> World" where
  "perform c w = w\<lparr>trace := trace w @ [c]\<rparr>"

definition setState :: "(State \<Rightarrow> State) \<Rightarrow> World \<Rightarrow> World" where
  "setState f w = perform (SetState (f (state w))) (w\<lparr>state := f (state w)\<rparr>)"

section \<open>JavaScript values\<close>

text \<open>The result of an optional chain \<^verbatim>\<open>x?.f\<close>: \<^verbatim>\<open>undefined\<close> or the field.\<close>

datatype 'a optional = Undefined | Defined 'a

definition chain :: "'a option \<Rightarrow> ('a \<Rightarrow> 'b) \<Rightarrow> 'b optional" where
  "chain x f = (case x of None \<Rightarrow> Undefined | Some v \<Rightarrow> Defined (f v))"

text \<open>
  \<^verbatim>\<open>a === b\<close> for \<open>a\<close> a \<^verbatim>\<open>string | null\<close> and \<open>b\<close> a \<^verbatim>\<open>string | undefined\<close>:
  \<^verbatim>\<open>null\<close> and \<^verbatim>\<open>undefined\<close> are different values, so only two strings can be equal.
\<close>

fun strict_eq :: "string option \<Rightarrow> string optional \<Rightarrow> bool" where
  "strict_eq (Some a) (Defined b) = (a = b)"
| "strict_eq _ _ = False"

text \<open>Truthiness of a \<^verbatim>\<open>string | null\<close>: \<^verbatim>\<open>null\<close> and the empty string are falsy.\<close>

definition truthy :: "string option \<Rightarrow> bool" where
  "truthy v = (case v of None \<Rightarrow> False | Some s \<Rightarrow> s \<noteq> [])"

text \<open>\<^verbatim>\<open>x || null\<close> for \<open>x\<close> a \<^verbatim>\<open>string | undefined\<close>.\<close>

definition or_null :: "string optional \<Rightarrow> string option" where
  "or_null x = (case x of Undefined \<Rightarrow> None | Defined s \<Rightarrow> if s = [] then None else Some s)"

section \<open>Derived values of a render\<close>

text \<open>
  \<^verbatim>\<open>environments.filter(environment => environment.parentId ===
  (baseEnvironment && baseEnvironment._id)).sort((e1, e2) => e1.metaSortKey - e2.metaSortKey)\<close>.
  \<^verbatim>\<open>baseEnvironment && baseEnvironment._id\<close> is \<^verbatim>\<open>null\<close> without a base
  environment and its id otherwise. On finite numbers the comparator is negative,
  zero or positive as the first key is below, equal to or above the second, so the
  list is sorted by the value of the key. The sort is stable, as \<open>sort_key\<close> is.
\<close>

definition subEnvironments :: "World \<Rightarrow> nat list" where
  "subEnvironments w =
     sort_key (\<lambda>r. metaSortKey (heap w r))
       (filter (\<lambda>r. parentId (heap w r) = map_option env_id (baseEnvironment (state w)))
          (environments w))"



section \<open>Handlers\<close>

text \<open>
  Each handler runs on the render it closes over and returns the world after its last
  statement; an awaited store call is taken with its answer at that point.
\<close>

definition handle_show :: "Store \<Rightarrow> World \<Rightarrow> World" where
  "handle_show st w =
     (case workspace w of
        None \<Rightarrow> w
      | Some ws \<Rightarrow>
          let w1 = perform (EnvironmentGetOrCreateForParentId (workspace_id ws)) w;
              baseEnv = models_environment_getOrCreateForParentId st (workspace_id ws);
              w2 = setState (\<lambda>s. s\<lparr>baseEnvironment := Some baseEnv,
                      selectedEnvironmentId :=
                        (case workspaceMeta w of
                           None \<Rightarrow> Some (env_id baseEnv)
                         | Some m \<Rightarrow>
                             if truthy (activeEnvironmentId m) then activeEnvironmentId m
                             else Some (env_id baseEnv))\<rparr>) w1
          in if modalRef w2 then perform ModalShow w2 else w2)"

definition handle_hide :: "World \<Rightarrow> World" where
  "handle_hide w = (if modalRef w then perform ModalHide w else w)"

definition onSelectionChange :: "string option \<Rightarrow> World \<Rightarrow> error + World" where
  "onSelectionChange anchorKey w =
     (if editorIsValid w = Some True \<and> truthy anchorKey then
        (case filter (\<lambda>r. Some (env_id (heap w r)) = anchorKey) (subEnvironments w) of
           [] \<Rightarrow> Inl TypeError
         | r # _ \<Rightarrow>
             let environment = heap w r;
                 w1 = setState (\<lambda>s. s\<lparr>selectedEnvironmentId :=
                        or_null (Defined (env_id environment))\<rparr>) w
             in Inr (case workspaceMeta w1 of
                       None \<Rightarrow> w1
                     | Some m \<Rightarrow>
                         if activeEnvironmentId m \<noteq> Some (env_id environment)
                         then perform (WorkspaceMetaUpdate m (Some (env_id environment))) w1
                         else w1))
      else Inr w)"

definition handleDeleteEnvironment :: "string option \<Rightarrow> World \<Rightarrow> World" where
  "handleDeleteEnvironment environmentId w =
     (if \<not> truthy environmentId
         \<or> strict_eq environmentId (chain (baseEnvironment (state w)) env_id)
      then w
      else
        let w1 = (case workspaceMeta w of
                    None \<Rightarrow> w
                  | Some m \<Rightarrow>
                      if activeEnvironmentId m = environmentId
                      then perform (WorkspaceMetaUpdate m None) w
                      else w);
            current = find (\<lambda>r. Some (env_id (heap w1 r)) = environmentId) (environments w1);
            w2 = (case current of
                    None \<Rightarrow> w1
                  | Some r \<Rightarrow> perform (EnvironmentRemove (heap w1 r)) w1)
        in setState (\<lambda>s. s\<lparr>selectedEnvironmentId :=
                               or_null (chain (baseEnvironment s) env_id)\<rparr>) w2)"

definition updateEnvironment :: "Store \<Rightarrow> string option \<Rightarrow> EnvironmentPatch \<Rightarrow> World \<Rightarrow> World" where
  "updateEnvironment st environmentId patch w =
     (case environmentId of
        None \<Rightarrow> w
      | Some i \<Rightarrow>
          let w1 = perform (EnvironmentGetById i) w
          in (case models_environment_getById st i of
                None \<Rightarrow> w1
              | Some realEnvironment \<Rightarrow>
                  let w2 = perform (EnvironmentUpdate realEnvironment patch) w1;
                      updated = models_environment_update st realEnvironment patch;
                      isBaseEnvironment =
                        strict_eq (parentId realEnvironment) (chain (workspace w) workspace_id)
                  in if isBaseEnvironment
                     then setState (\<lambda>_. (state w)\<lparr>baseEnvironment := Some updated\<rparr>) w2
                     else w2))"

text \<open>
  \<^verbatim>\<open>onReorder\<close>: \<^verbatim>\<open>[...e.keys][0]\<close> is \<^verbatim>\<open>undefined\<close> for an empty key set.
  The two assignments write to the object \<^verbatim>\<open>sourceEnv\<close> points to; their right-hand
  sides are the number operations \<^verbatim>\<open>targetEnv.metaSortKey - 1\<close> and
  \<^verbatim>\<open>targetEnv.metaSortKey + 1\<close>.
\<close>

definition onReorder :: "Store \<Rightarrow> ReorderEvent \<Rightarrow> World \<Rightarrow> World" where
  "onReorder st e w =
     (let source = (case keys e of [] \<Rightarrow> Undefined | k # _ \<Rightarrow> Defined k);
          sourceEnv = find (\<lambda>r. strict_eq (Some (env_id (heap w r))) source) (subEnvironments w);
          targetEnv = find (\<lambda>r. env_id (heap w r) = target_key e) (subEnvironments w)
      in case sourceEnv of
           None \<Rightarrow> w
         | Some s \<Rightarrow>
             (case targetEnv of
                None \<Rightarrow> w
              | Some t \<Rightarrow>
                  let w1 = (if dropPosition e = Before
                            then w\<lparr>heap := (heap w)(s := (heap w s)\<lparr>metaSortKey :=
                                     js_sub (metaSortKey (heap w t)) 1\<rparr>)\<rparr>
                            else w);
                      w2 = (if dropPosition e = After
                            then w1\<lparr>heap := (heap w1)(s := (heap w1 s)\<lparr>metaSortKey :=
                                     js_add (metaSortKey (heap w1 t)) 1\<rparr>)\<rparr>
                            else w1)
                  in updateEnvironment st (Some (env_id (heap w2 s)))
                       (PatchMetaSortKey (metaSortKey (heap w2 s))) w2))"

text \<open>
  The click handler of the Base Environment button in the sidebar. It stores
  \<^verbatim>\<open>baseEnvironment?._id\<close> as it is; in the branch that stores it the base
  environment is present, since the selection, a \<^verbatim>\<open>string | null\<close>, is never
  \<^verbatim>\<open>undefined\<close>.
\<close>

definition onClick_BaseEnvironment :: "World \<Rightarrow> World" where
  "onClick_BaseEnvironment w =
     (if editorIsValid w = Some True
         \<and> strict_eq (selectedEnvironmentId (state w)) (chain (baseEnvironment (state w)) env_id)
      then setState (\<lambda>s. s\<lparr>selectedEnvironmentId :=
                             map_option env_id (baseEnvironment (state w))\<rparr>) w
      else w)"

text \<open>
  The two items of the create dropdown, \<^verbatim>\<open>Environment\<close> and
  \<^verbatim>\<open>Private Environment\<close>.
\<close>

definition onClick_Environment :: "Store \<Rightarrow> World \<Rightarrow> World" where
  "onClick_Environment st w =
     (case baseEnvironment (state w) of
        None \<Rightarrow> w
      | Some b \<Rightarrow>
          let w1 = perform (EnvironmentCreate (env_id b) False) w;
              environment = models_environment_create st (env_id b) False
          in setState (\<lambda>s. s\<lparr>selectedEnvironmentId := Some (env_id environment)\<rparr>) w1)"

definition onClick_PrivateEnvironment :: "Store \<Rightarrow> World \<Rightarrow> World" where
  "onClick_PrivateEnvironment st w =
     (case baseEnvironment (state w) of
        None \<Rightarrow> w
      | Some b \<Rightarrow>
          let w1 = perform (EnvironmentCreate (env_id b) True) w;
              environment = models_environment_create st (env_id b) True
          in setState (\<lambda>s. s\<lparr>selectedEnvironmentId := Some (env_id environment)\<rparr>) w1)"






section \<open>Reading a trace\<close>

text \<open>The calls a handler added when it took the world \<open>w\<close> to \<open>w'\<close>.\<close>

definition issued :: "World \<Rightarrow> World \<Rightarrow> call list" where
  "issued w w' = drop (length (trace w)) (trace w')"

section \<open>A concrete workspace\<close>

text \<open>
  The scenario of the spec: the base environment "Base Environment" of a workspace
  with the sub-environments A (sort key 1) and B (sort key 2); A is the active
  environment and is selected.
\<close>

definition envBase :: Environment where
  "envBase = \<lparr>env_id = ''env_base'', color = None, name = ''Base Environment'',
     isPrivate = False, parentId = Some ''wrk_1'', metaSortKey = 0\<rparr>"

definition envA :: Environment where
  "envA = \<lparr>env_id = ''env_A'', color = Some ''#7d69cb'', name = ''A'',
     isPrivate = False, parentId = Some ''env_base'', metaSortKey = 1\<rparr>"

definition envB :: Environment where
  "envB = \<lparr>env_id = ''env_B'', color = None, name = ''B'',
     isPrivate = True, parentId = Some ''env_base'', metaSortKey = 2\<rparr>"

definition metaA :: WorkspaceMeta where
  "metaA = \<lparr>meta_id = ''wrkmeta_1'', activeEnvironmentId = Some ''env_A''\<rparr>"

definition scenarioWorld :: World where
  "scenarioWorld =
     \<lparr>workspace = Some \<lparr>workspace_id = ''wrk_1''\<rparr>,
      workspaceMeta = Some metaA,
      heap = (\<lambda>r. if r = 1 then envA else if r = 2 then envB else envBase),
      environments = [0, 1, 2],
      state = \<lparr>baseEnvironment = Some envBase, selectedEnvironmentId = Some ''env_A''\<rparr>,
      editorIsValid = Some True,
      modalRef = True,
      trace = []\<rparr>"

text \<open>
  Modelled from the spec: the environment store is not part of the file. The spec
  gives its contract: "update with partial field patch", "create with {parentId,
  isPrivate}", "fetch by id", "fetch-or-create base by parent id", each "resolving to
  the resulting record". \<open>applyPatch\<close> writes the patched field; \<open>scenarioStore\<close> is a
  store holding the records of the scenario.
\<close>

definition applyPatch :: "Environment \<Rightarrow> EnvironmentPatch \<Rightarrow> Environment" where
  "applyPatch e p =
     (case p of
        PatchMetaSortKey k \<Rightarrow> e\<lparr>metaSortKey := k\<rparr>
      | PatchName n \<Rightarrow> e\<lparr>name := n\<rparr>
      | PatchColor c \<Rightarrow> e\<lparr>color := c\<rparr>)"

definition scenarioStore :: Store where
  "scenarioStore =
     \<lparr>models_environment_getById =
        (\<lambda>i. if i = ''env_A'' then Some envA
              else if i = ''env_B'' then Some envB
              else if i = ''env_base'' then Some envBase
              else None),
      models_environment_update = applyPatch,
      models_environment_create =
        (\<lambda>p private. \<lparr>env_id = ''env_new'', color = None, name = ''New Environment'',
           isPrivate = private, parentId = Some p, metaSortKey = 3\<rparr>),
      models_environment_getOrCreateForParentId = (\<lambda>_. envBase)\<rparr>"

text \<open>The reorder event of the scenario: A is dragged and dropped after B.\<close>

definition dragAafterB :: ReorderEvent where
  "dragAafterB = \<lparr>keys = [''env_A''], target_key = ''env_B'', dropPosition = After\<rparr>"

definition dragAbeforeB :: ReorderEvent where
  "dragAbeforeB = \<lparr>keys = [''env_A''], target_key = ''env_B'', dropPosition = Before\<rparr>"

text \<open>
  Variations of the scenario: the modal before it was first shown; the editor holding
  invalid content; B selected (B has no colour); and a selection, also recorded as
  active, whose record is no longer in the observed list.
\<close>

definition closedWorld :: World where
  "closedWorld = scenarioWorld\<lparr>state := \<lparr>baseEnvironment = None, selectedEnvironmentId = None\<rparr>\<rparr>"

definition invalidWorld :: World where
  "invalidWorld = scenarioWorld\<lparr>editorIsValid := Some False\<rparr>"


definition metaGone :: WorkspaceMeta where
  "metaGone = \<lparr>meta_id = ''wrkmeta_1'', activeEnvironmentId = Some ''env_gone''\<rparr>"

definition goneWorld :: World where
  "goneWorld = scenarioWorld\<lparr>workspaceMeta := Some metaGone,
     state := \<lparr>baseEnvironment = Some envBase, selectedEnvironmentId = Some ''env_gone''\<rparr>\<rparr>"

section \<open>Basic facts\<close>

lemma truthy_Some [simp]: "truthy (Some s) = (s \<noteq> [])"
  by (simp add: truthy_def)

lemma truthy_None [simp]: "\<not> truthy None"
  by (simp add: truthy_def)

lemma chain_Some [simp]: "chain (Some v) f = Defined (f v)"
  by (simp add: chain_def)

lemma chain_None [simp]: "chain None f = Undefined"
  by (simp add: chain_def)

lemma or_null_Defined [simp]: "or_null (Defined s) = (if s = [] then None else Some s)"
  by (simp add: or_null_def)

lemma or_null_Undefined [simp]: "or_null Undefined = None"
  by (simp add: or_null_def)

lemma perform_simps [simp]:
  "trace (perform c w) = trace w @ [c]"
  "state (perform c w) = state w"
  "heap (perform c w) = heap w"
  "environments (perform c w) = environments w"
  "workspace (perform c w) = workspace w"
  "workspaceMeta (perform c w) = workspaceMeta w"
  "editorIsValid (perform c w) = editorIsValid w"
  "modalRef (perform c w) = modalRef w"
  by (simp_all add: perform_def)

lemma setState_simps [simp]:
  "trace (setState f w) = trace w @ [SetState (f (state w))]"
  "state (setState f w) = f (state w)"
  "heap (setState f w) = heap w"
  "environments (setState f w) = environments w"
  "workspace (setState f w) = workspace w"
  "workspaceMeta (setState f w) = workspaceMeta w"
  "editorIsValid (setState f w) = editorIsValid w"
  "modalRef (setState f w) = modalRef w"
  by (simp_all add: setState_def)

lemma issued_append [simp]: "trace w' = trace w @ cs \<Longrightarrow> issued w w' = cs"
  by (simp add: issued_def)

lemma issued_same [simp]: "issued w w = []"
  by (simp add: issued_def)

section \<open>Rounding\<close>

text \<open>\<open>exponent\<close> is the binary exponent: \<open>2 ^ exponent q \<le> \<bar>q\<bar> < 2 ^ (exponent q + 1)\<close>.\<close>

lemma pow2_nat: "pow2 (int n) = 2 ^ n"
  by (simp add: pow2_def)

lemma pow2_neg_nat: "pow2 (- int n) = 1 / 2 ^ n"
  by (cases "n = 0") (simp_all add: pow2_def)

lemma exponent_bounds_ge1:
  assumes "1 \<le> \<bar>q\<bar>"
  shows "pow2 (exponent q) \<le> \<bar>q\<bar> \<and> \<bar>q\<bar> < pow2 (exponent q + 1)"
proof -
  define m where "m = \<lfloor>\<bar>q\<bar>\<rfloor>"
  have m1: "1 \<le> m" using assms by (simp add: m_def le_floor_iff)
  then have m0: "0 < m" by simp
  have b1: "1 \<le> bitlen m"
    using m0 bitlen_eq_zero_iff [of m] bitlen_nonneg [of m] by linarith
  define n where "n = nat (bitlen m - 1)"
  have n1: "nat (bitlen m - 1) = n" by (simp add: n_def)
  have n2: "nat (bitlen m) = Suc n" using b1 unfolding n_def by linarith
  have bn: "bitlen m - 1 = int n" using b1 n2 by linarith
  from bitlen_bounds [OF m0] have lo: "2 ^ n \<le> m" and hi: "m < 2 ^ Suc n"
    unfolding n1 n2 by simp_all
  have e: "exponent q = int n"
    using assms by (simp add: exponent_def bn flip: m_def)
  have fl: "(of_int m :: rat) \<le> \<bar>q\<bar>" by (simp add: m_def)
  have "(2::rat) ^ n \<le> of_int m"
    using lo by (metis of_int_le_iff of_int_numeral of_int_power)
  from this fl have "(2::rat) ^ n \<le> \<bar>q\<bar>" by (rule order_trans)
  then have l: "pow2 (int n) \<le> \<bar>q\<bar>" by (simp only: pow2_nat)
  have "\<bar>q\<bar> < of_int m + 1" using floor_correct [of "\<bar>q\<bar>"] by (simp add: m_def)
  moreover have "m + 1 \<le> 2 ^ Suc n" using hi by simp
  then have "(of_int (m + 1) :: rat) \<le> 2 ^ Suc n"
    by (metis of_int_le_iff of_int_numeral of_int_power)
  ultimately have "\<bar>q\<bar> < 2 ^ Suc n" by simp
  then have u: "\<bar>q\<bar> < pow2 (int n + 1)"
    using pow2_nat [of "Suc n"] by (simp add: add.commute)
  from l u e show ?thesis by simp
qed

lemma exponent_bounds_lt1:
  assumes "q \<noteq> 0" and "\<bar>q\<bar> < 1"
  shows "pow2 (exponent q) \<le> \<bar>q\<bar> \<and> \<bar>q\<bar> < pow2 (exponent q + 1)"
proof -
  define r where "r = 1 / \<bar>q\<bar>"
  have q0: "0 < \<bar>q\<bar>" using assms(1) by simp
  have r1: "1 < r" using assms(2) q0 by (simp add: r_def)
  define c where "c = \<lceil>r\<rceil>"
  have c2: "2 \<le> c" using r1 by (simp add: c_def less_ceiling_iff flip: int_one_le_iff_zero_less) 
  then have m0: "0 < c - 1" by simp
  have b1: "1 \<le> bitlen (c - 1)"
    using m0 bitlen_eq_zero_iff [of "c - 1"] bitlen_nonneg [of "c - 1"] by linarith
  define n where "n = nat (bitlen (c - 1) - 1)"
  have n1: "nat (bitlen (c - 1) - 1) = n" by (simp add: n_def)
  have n2: "nat (bitlen (c - 1)) = Suc n" using b1 unfolding n_def by linarith
  have bn: "bitlen (c - 1) = int (Suc n)" using b1 n2 by linarith
  from bitlen_bounds [OF m0] have lo: "2 ^ n \<le> c - 1" and hi: "c - 1 < 2 ^ Suc n"
    unfolding n1 n2 by simp_all
  have e: "exponent q = - int (Suc n)"
    using assms(2) by (simp add: exponent_def bn flip: c_def r_def)
  have "r \<le> of_int c" by (simp add: c_def)
  moreover have "c \<le> 2 ^ Suc n" using hi by simp
  then have "(of_int c :: rat) \<le> 2 ^ Suc n"
    by (metis of_int_le_iff of_int_numeral of_int_power)
  ultimately have "r \<le> 2 ^ Suc n" by simp
  then have "1 / 2 ^ Suc n \<le> \<bar>q\<bar>"
    using q0 by (simp add: r_def field_simps)
  then have l: "pow2 (- int (Suc n)) \<le> \<bar>q\<bar>"
    by (simp only: pow2_neg_nat)
  have cl: "of_int (c - 1) < r" using ceiling_correct [of r] by (simp add: c_def)
  have "(2::rat) ^ n \<le> of_int (c - 1)"
    using lo by (metis of_int_le_iff of_int_numeral of_int_power)
  from this cl have "2 ^ n < r" by (rule le_less_trans)
  then have "\<bar>q\<bar> < 1 / 2 ^ n"
    using q0 by (simp add: r_def field_simps)
  then have "\<bar>q\<bar> < pow2 (- int n)"
    by (simp only: pow2_neg_nat)
  then have u: "\<bar>q\<bar> < pow2 (- int (Suc n) + 1)" by simp
  from l u e show ?thesis by simp
qed

lemma exponent_bounds:
  "q \<noteq> 0 \<Longrightarrow> pow2 (exponent q) \<le> \<bar>q\<bar> \<and> \<bar>q\<bar> < pow2 (exponent q + 1)"
  using exponent_bounds_ge1 [of q] exponent_bounds_lt1 [of q] by (cases "1 \<le> \<bar>q\<bar>") simp_all

lemma round_half_even_of_int [simp]: "round_half_even (of_int n) = n"
  by (simp add: round_half_even_def)

lemma exponent_of_int: "n \<noteq> 0 \<Longrightarrow> exponent (of_int n) = bitlen \<bar>n\<bar> - 1"
proof -
  assume "n \<noteq> 0"
  then have "1 \<le> \<bar>n\<bar>" by linarith
  then have "(1::rat) \<le> of_int \<bar>n\<bar>" by simp
  then have "1 \<le> \<bar>of_int n :: rat\<bar>" by (simp only: of_int_abs)
  moreover have "\<lfloor>\<bar>of_int n :: rat\<bar>\<rfloor> = \<bar>n\<bar>"
    by (metis floor_of_int of_int_abs)
  ultimately show ?thesis by (simp add: exponent_def)
qed

text \<open>An integer of at most 53 bits is a double.\<close>

lemma round_double_53_bits:
  assumes "n \<noteq> 0" and "bitlen \<bar>n\<bar> \<le> 53"
  shows "round_double (of_int n) = of_int n"
proof -
  let ?e = "bitlen \<bar>n\<bar> - 1"
  from assms(1) have pos: "0 < \<bar>n\<bar>" by simp
  then have "1 \<le> bitlen \<bar>n\<bar>"
    using bitlen_eq_zero_iff [of "\<bar>n\<bar>"] bitlen_nonneg [of "\<bar>n\<bar>"] by linarith
  then have e0: "0 \<le> ?e" by simp
  from assms(2) have e52: "?e \<le> 52" by simp
  define k where "k = nat (52 - ?e)"
  have p: "max ?e (- 1022) - 52 = - int k"
    using e0 e52 by (simp add: k_def)
  have pw: "pow2 (- int k) = 1 / 2 ^ k"
    by (cases "k = 0") (simp_all add: pow2_def)
  have "(of_int n :: rat) / (1 / 2 ^ k) = of_int (n * 2 ^ k)"
    by simp
  then have "round_half_even ((of_int n :: rat) / pow2 (- int k)) = n * 2 ^ k"
    by (simp only: pw round_half_even_of_int)
  then have "round_double (of_int n) = of_int (n * 2 ^ k) * (1 / 2 ^ k)"
    using assms(1) by (simp add: round_double_def exponent_of_int p pw Let_def)
  then show ?thesis by simp
qed

text \<open>So is every integer up to \<open>2 ^ 53\<close> in magnitude.\<close>

lemma round_double_int:
  assumes "\<bar>n\<bar> \<le> 2 ^ 53"
  shows "round_double (of_int n) = of_int n"
proof (cases "n = 0")
  case True
  then show ?thesis by (simp add: round_double_def)
next
  case nz: False
  show ?thesis
  proof (cases "\<bar>n\<bar> < 2 ^ 53")
    case True
    then have "bitlen \<bar>n\<bar> \<le> 53"
      by (simp add: bitlen_le_iff_power)
    with nz show ?thesis by (rule round_double_53_bits)
  next
    case False
    with assms have "\<bar>n\<bar> = 2 ^ 53" by simp
    then have n: "n = 2 ^ 53 \<or> n = - (2 ^ 53)" by linarith
    have b: "bitlen (2 ^ 53) = 54"
      using bitlen_pow2 [of 1 53] by (simp add: compute_bitlen)
    have e: "exponent (of_int n) = 53"
      using n nz b by (auto simp: exponent_of_int)
    have h: "(of_int n :: rat) / 2 = of_int (n div 2)"
      using n by auto
    have "round_double (of_int n) = of_int (round_half_even (of_int n / 2)) * 2"
      using nz by (simp add: round_double_def e pow2_def)
    also have "\<dots> = of_int (n div 2) * 2"
      by (simp only: h round_half_even_of_int)
    also have "\<dots> = of_int n"
      using n by auto
    finally show ?thesis .
  qed
qed

lemma js_sub_int_exact:
  assumes "\<bar>n\<bar> < 2 ^ 53"
  shows "js_sub (of_int n) 1 = of_int n - 1"
proof -
  from assms have "\<bar>n - 1\<bar> \<le> 2 ^ 53" by linarith
  then have "round_double (of_int (n - 1)) = of_int (n - 1)" by (rule round_double_int)
  then show ?thesis by (simp add: js_sub_def)
qed

lemma js_add_int_exact:
  assumes "\<bar>n\<bar> < 2 ^ 53"
  shows "js_add (of_int n) 1 = of_int n + 1"
proof -
  from assms have "\<bar>n + 1\<bar> \<le> 2 ^ 53" by linarith
  then have "round_double (of_int (n + 1)) = of_int (n + 1)" by (rule round_double_int)
  then show ?thesis by (simp add: js_add_def)
qed

text \<open>
  Beyond 53 bits the operations round, and fractional keys keep their fraction:
  \<^verbatim>\<open>2 ** 53 + 1\<close> is \<^verbatim>\<open>2 ** 53\<close>, \<^verbatim>\<open>9007199254740994 - 1\<close> is
  \<^verbatim>\<open>9007199254740992\<close>, \<^verbatim>\<open>0.5 + 1\<close> is \<^verbatim>\<open>1.5\<close>, and \<^verbatim>\<open>0.1 + 1\<close> is the double
  \<^verbatim>\<open>1.1\<close>.
\<close>

lemma js_add_rounds_at_2_53: "js_add (2 ^ 53) 1 = 2 ^ 53"
  by code_simp

lemma js_sub_rounds_above_2_53: "js_sub 9007199254740994 1 = 9007199254740992"
  by code_simp

lemma js_add_half: "js_add (1 / 2) 1 = 3 / 2"
  by code_simp

lemma js_add_tenth: "js_add (3602879701896397 / 2 ^ 55) 1 = 2476979795053773 / 2 ^ 51"
  by code_simp

lemma js_add_2_1: "js_add 2 1 = 3"
  using js_add_int_exact [of 2] by simp

lemma js_sub_2_1: "js_sub 2 1 = 1"
  using js_sub_int_exact [of 2] by simp

section \<open>Opening the modal\<close>

text \<open>
  C7. On \<^verbatim>\<open>show\<close> with an active workspace, the base environment is fetched or
  created for that workspace and stored in the state; the selection becomes the active
  environment id of the workspace metadata when that id is a non-empty string, and the
  id of the base environment otherwise (no metadata, \<^verbatim>\<open>null\<close>, or the empty string);
  the state is set before the modal is asked to show itself.
\<close>

theorem handle_show_selects:
  assumes ws: "workspace w = Some ws"
    and base: "models_environment_getOrCreateForParentId st (workspace_id ws) = b"
  shows "baseEnvironment (state (handle_show st w)) = Some b
         \<and> (\<forall>m a. workspaceMeta w = Some m \<and> activeEnvironmentId m = Some a \<and> a \<noteq> [] \<longrightarrow>
               selectedEnvironmentId (state (handle_show st w)) = Some a)
         \<and> (workspaceMeta w = None
              \<or> (\<exists>m. workspaceMeta w = Some m
                    \<and> (activeEnvironmentId m = None \<or> activeEnvironmentId m = Some [])) \<longrightarrow>
               selectedEnvironmentId (state (handle_show st w)) = Some (env_id b))
         \<and> issued w (handle_show st w) =
             [EnvironmentGetOrCreateForParentId (workspace_id ws),
              SetState (state (handle_show st w))]
             @ (if modalRef w then [ModalShow] else [])"
  using assms
  by (cases "workspaceMeta w")
     (auto simp: handle_show_def Let_def truthy_def split: option.splits)

theorem handle_show_selects_witness:
  "workspace closedWorld = Some \<lparr>workspace_id = ''wrk_1''\<rparr>
   \<and> models_environment_getOrCreateForParentId scenarioStore ''wrk_1'' = envBase
   \<and> workspaceMeta closedWorld = Some metaA
   \<and> activeEnvironmentId metaA = Some ''env_A''
   \<and> state (handle_show scenarioStore closedWorld) =
       \<lparr>baseEnvironment = Some envBase, selectedEnvironmentId = Some ''env_A''\<rparr>
   \<and> issued closedWorld (handle_show scenarioStore closedWorld) =
       [EnvironmentGetOrCreateForParentId ''wrk_1'',
        SetState \<lparr>baseEnvironment = Some envBase, selectedEnvironmentId = Some ''env_A''\<rparr>,
        ModalShow]
   \<and> workspaceMeta (closedWorld\<lparr>workspaceMeta := None\<rparr>) = None
   \<and> selectedEnvironmentId (state (handle_show scenarioStore (closedWorld\<lparr>workspaceMeta := None\<rparr>))) =
       Some ''env_base''"
  using handle_show_selects [of closedWorld "\<lparr>workspace_id = ''wrk_1''\<rparr>" scenarioStore envBase]
    handle_show_selects [of "closedWorld\<lparr>workspaceMeta := None\<rparr>" "\<lparr>workspace_id = ''wrk_1''\<rparr>"
      scenarioStore envBase]
  by (auto simp add: closedWorld_def scenarioWorld_def scenarioStore_def metaA_def envBase_def)

section \<open>Changing the selection\<close>

lemma filter_Cons_holds: "filter P xs = y # ys \<Longrightarrow> P y"
  by (metis filter_eq_ConsD)

lemma onSelectionChange_rejected:
  "editorIsValid w \<noteq> Some True \<Longrightarrow> onSelectionChange k w = Inr w"
  by (simp add: onSelectionChange_def)

lemma onSelectionChange_accepted:
  assumes "onSelectionChange k w = Inr w'" and "editorIsValid w = Some True" and "truthy k"
  shows "state w' = (state w)\<lparr>selectedEnvironmentId := k\<rparr>
         \<and> issued w w' = SetState (state w') #
             (case workspaceMeta w of
                None \<Rightarrow> []
              | Some m \<Rightarrow> if activeEnvironmentId m \<noteq> k then [WorkspaceMetaUpdate m k] else [])"
proof (cases "filter (\<lambda>r. Some (env_id (heap w r)) = k) (subEnvironments w)")
  case Nil
  with assms show ?thesis by (simp add: onSelectionChange_def)
next
  case (Cons r rs)
  then have k: "k = Some (env_id (heap w r))"
    using filter_Cons_holds [OF Cons] by simp
  with assms(3) have ne: "env_id (heap w r) \<noteq> []" by simp
  from assms(1,2,3) Cons k ne show ?thesis
    by (auto simp: onSelectionChange_def Let_def split: option.splits)
qed

lemma onSelectionChange_persisted_only_if:
  assumes r: "onSelectionChange k w = Inr w'"
    and c: "WorkspaceMetaUpdate m v \<in> set (issued w w')"
  shows "editorIsValid w = Some True \<and> workspaceMeta w = Some m
         \<and> v = selectedEnvironmentId (state w') \<and> activeEnvironmentId m \<noteq> v"
proof (cases "editorIsValid w = Some True \<and> truthy k")
  case False
  then have "onSelectionChange k w = Inr w" by (auto simp: onSelectionChange_def)
  with r have "w' = w" by simp
  with c show ?thesis by simp
next
  case True
  with r have "state w' = (state w)\<lparr>selectedEnvironmentId := k\<rparr>
       \<and> issued w w' = SetState (state w') #
           (case workspaceMeta w of
              None \<Rightarrow> []
            | Some m \<Rightarrow> if activeEnvironmentId m \<noteq> k then [WorkspaceMetaUpdate m k] else [])"
    using onSelectionChange_accepted [of k w w'] by simp
  with c True show ?thesis by (auto split: option.splits if_splits)
qed

text \<open>
  C3. While the editor does not report valid content (it reports invalid content, or
  its ref is unattached) a selection change returns the world unchanged: the selected
  id stays and no call is issued. Whenever a selection change does issue an update of
  the workspace metadata, the editor was valid, the value written is the newly selected
  id, and it differs from the active id recorded in the metadata; conversely an
  accepted change to an id other than the recorded one selects it and issues that update.
\<close>

theorem onSelectionChange_guard:
  "(editorIsValid w \<noteq> Some True \<longrightarrow> onSelectionChange k w = Inr w)
   \<and> (onSelectionChange k w = Inr w' \<and> WorkspaceMetaUpdate m v \<in> set (issued w w') \<longrightarrow>
        editorIsValid w = Some True \<and> workspaceMeta w = Some m
        \<and> v = selectedEnvironmentId (state w') \<and> activeEnvironmentId m \<noteq> v)
   \<and> (onSelectionChange k w = Inr w' \<and> editorIsValid w = Some True \<and> truthy k
        \<and> workspaceMeta w = Some m \<and> activeEnvironmentId m \<noteq> k \<longrightarrow>
        selectedEnvironmentId (state w') = k \<and> WorkspaceMetaUpdate m k \<in> set (issued w w'))"
proof -
  have p1: "editorIsValid w \<noteq> Some True \<longrightarrow> onSelectionChange k w = Inr w"
    by (simp add: onSelectionChange_rejected)
  have p2: "onSelectionChange k w = Inr w' \<and> WorkspaceMetaUpdate m v \<in> set (issued w w') \<longrightarrow>
        editorIsValid w = Some True \<and> workspaceMeta w = Some m
        \<and> v = selectedEnvironmentId (state w') \<and> activeEnvironmentId m \<noteq> v"
    using onSelectionChange_persisted_only_if [of k w w' m v] by blast
  have p3: "onSelectionChange k w = Inr w' \<and> editorIsValid w = Some True \<and> truthy k
        \<and> workspaceMeta w = Some m \<and> activeEnvironmentId m \<noteq> k \<longrightarrow>
        selectedEnvironmentId (state w') = k \<and> WorkspaceMetaUpdate m k \<in> set (issued w w')"
    using onSelectionChange_accepted [of k w w'] by simp
  from p1 p2 p3 show ?thesis by blast
qed

theorem onSelectionChange_guard_witness:
  "editorIsValid invalidWorld = Some False
   \<and> onSelectionChange (Some ''env_B'') invalidWorld = Inr invalidWorld
   \<and> editorIsValid scenarioWorld = Some True
   \<and> workspaceMeta scenarioWorld = Some metaA
   \<and> activeEnvironmentId metaA = Some ''env_A''
   \<and> onSelectionChange (Some ''env_B'') scenarioWorld =
       Inr (scenarioWorld\<lparr>state := \<lparr>baseEnvironment = Some envBase, selectedEnvironmentId = Some ''env_B''\<rparr>,
              trace := [SetState \<lparr>baseEnvironment = Some envBase, selectedEnvironmentId = Some ''env_B''\<rparr>,
                        WorkspaceMetaUpdate metaA (Some ''env_B'')]\<rparr>)
   \<and> onSelectionChange (Some ''env_A'') scenarioWorld =
       Inr (scenarioWorld\<lparr>trace :=
              [SetState \<lparr>baseEnvironment = Some envBase, selectedEnvironmentId = Some ''env_A''\<rparr>]\<rparr>)"
  using onSelectionChange_guard [of invalidWorld "Some ''env_B''" invalidWorld metaA "Some ''env_B''"]
    onSelectionChange_guard [of scenarioWorld "Some ''env_B''"
      "scenarioWorld\<lparr>state := \<lparr>baseEnvironment = Some envBase, selectedEnvironmentId = Some ''env_B''\<rparr>,
         trace := [SetState \<lparr>baseEnvironment = Some envBase, selectedEnvironmentId = Some ''env_B''\<rparr>,
                   WorkspaceMetaUpdate metaA (Some ''env_B'')]\<rparr>" metaA "Some ''env_B''"]
  by (simp add: invalidWorld_def scenarioWorld_def metaA_def envA_def envBase_def envB_def
        onSelectionChange_def subEnvironments_def Let_def setState_def perform_def)

text \<open>
  C9. A click on the Base Environment button never changes the component state, the
  selected id in particular: the handler writes the base id only when the selection is
  already the base id. When the selection is anything else (a sub-environment, or
  nothing) the click does nothing at all.
\<close>

theorem onClick_BaseEnvironment_keeps_selection:
  "state (onClick_BaseEnvironment w) = state w
   \<and> (\<not> (\<exists>b. baseEnvironment (state w) = Some b \<and> selectedEnvironmentId (state w) = Some (env_id b))
        \<longrightarrow> onClick_BaseEnvironment w = w)"
  by (cases "baseEnvironment (state w)"; cases "selectedEnvironmentId (state w)")
     (auto simp: onClick_BaseEnvironment_def)

theorem onClick_BaseEnvironment_keeps_selection_witness:
  "baseEnvironment (state scenarioWorld) = Some envBase
   \<and> selectedEnvironmentId (state scenarioWorld) = Some ''env_A''
   \<and> env_id envBase \<noteq> ''env_A''
   \<and> selectedEnvironmentId (state (onClick_BaseEnvironment scenarioWorld)) = Some ''env_A''
   \<and> onClick_BaseEnvironment scenarioWorld = scenarioWorld"
  using onClick_BaseEnvironment_keeps_selection [of scenarioWorld]
  by (simp add: scenarioWorld_def envBase_def)

section \<open>Creating\<close>

text \<open>
  C4. With a base environment loaded, both create items ask the store for a record
  whose parent id is the id of the base environment, the public item with the privacy
  flag false and the private item with it true; apart from that flag the two handlers
  do the same. The selection then becomes the id of the record the store returned. For
  a store that builds the record from the fields it is given, that record has the base
  environment as its parent and the requested privacy flag.
\<close>

theorem create_selects_new:
  assumes base: "baseEnvironment (state w) = Some b"
  shows "(if private then onClick_PrivateEnvironment st w else onClick_Environment st w) =
           w\<lparr>state := (state w)\<lparr>selectedEnvironmentId :=
                 Some (env_id (models_environment_create st (env_id b) private))\<rparr>,
             trace := trace w @
               [EnvironmentCreate (env_id b) private,
                SetState ((state w)\<lparr>selectedEnvironmentId :=
                  Some (env_id (models_environment_create st (env_id b) private))\<rparr>)]\<rparr>
         \<and> ((\<forall>p f. parentId (models_environment_create st p f) = Some p
                    \<and> isPrivate (models_environment_create st p f) = f) \<longrightarrow>
              parentId (models_environment_create st (env_id b) private) = Some (env_id b)
              \<and> isPrivate (models_environment_create st (env_id b) private) = private)"
  using assms
  by (simp add: onClick_Environment_def onClick_PrivateEnvironment_def Let_def
        setState_def perform_def)

theorem create_selects_new_witness:
  "baseEnvironment (state scenarioWorld) = Some envBase
   \<and> selectedEnvironmentId (state (onClick_Environment scenarioStore scenarioWorld)) = Some ''env_new''
   \<and> selectedEnvironmentId (state (onClick_PrivateEnvironment scenarioStore scenarioWorld)) = Some ''env_new''
   \<and> issued scenarioWorld (onClick_Environment scenarioStore scenarioWorld) =
       [EnvironmentCreate ''env_base'' False,
        SetState \<lparr>baseEnvironment = Some envBase, selectedEnvironmentId = Some ''env_new''\<rparr>]
   \<and> issued scenarioWorld (onClick_PrivateEnvironment scenarioStore scenarioWorld) =
       [EnvironmentCreate ''env_base'' True,
        SetState \<lparr>baseEnvironment = Some envBase, selectedEnvironmentId = Some ''env_new''\<rparr>]
   \<and> parentId (models_environment_create scenarioStore ''env_base'' True) = Some ''env_base''
   \<and> isPrivate (models_environment_create scenarioStore ''env_base'' True)
   \<and> \<not> isPrivate (models_environment_create scenarioStore ''env_base'' False)"
  using create_selects_new [of scenarioWorld envBase True scenarioStore]
    create_selects_new [of scenarioWorld envBase False scenarioStore]
  by (simp add: scenarioWorld_def scenarioStore_def envBase_def)

section \<open>Deleting\<close>

text \<open>
  C5. Deleting the base environment is a no-op: called with \<^verbatim>\<open>null\<close> or with the id
  of the base environment, \<^verbatim>\<open>handleDeleteEnvironment\<close> returns the world it was given,
  so no call is issued (nothing is removed, the active-environment pointer is not
  written) and the component state is the same.
\<close>

theorem handleDeleteEnvironment_base_noop:
  assumes "environmentId = None
           \<or> (\<exists>b. baseEnvironment (state w) = Some b \<and> environmentId = Some (env_id b))"
  shows "handleDeleteEnvironment environmentId w = w"
  using assms by (auto simp: handleDeleteEnvironment_def)

theorem handleDeleteEnvironment_base_noop_witness:
  "handleDeleteEnvironment None scenarioWorld = scenarioWorld
   \<and> baseEnvironment (state scenarioWorld) = Some envBase
   \<and> handleDeleteEnvironment (Some (env_id envBase)) scenarioWorld = scenarioWorld"
  using handleDeleteEnvironment_base_noop [of None scenarioWorld]
    handleDeleteEnvironment_base_noop [of "Some (env_id envBase)" scenarioWorld]
  by (simp add: scenarioWorld_def)

text \<open>
  C2. Deleting a sub-environment that is the active environment: the handler issues,
  in this order, the update that sets the active-environment id of the workspace
  metadata to \<^verbatim>\<open>null\<close>, the removal of the record, and the state update that selects
  the base environment; nothing else is issued. Ids are non-empty strings.
\<close>

theorem handleDeleteEnvironment_active:
  assumes meta: "workspaceMeta w = Some m"
    and active: "activeEnvironmentId m = Some i"
    and base: "baseEnvironment (state w) = Some b"
    and sub: "i \<noteq> env_id b"
    and ids: "i \<noteq> []" "env_id b \<noteq> []"
    and found: "find (\<lambda>r. env_id (heap w r) = i) (environments w) = Some r"
  shows "issued w (handleDeleteEnvironment (Some i) w) =
           [WorkspaceMetaUpdate m None, EnvironmentRemove (heap w r),
            SetState \<lparr>baseEnvironment = Some b, selectedEnvironmentId = Some (env_id b)\<rparr>]
         \<and> state (handleDeleteEnvironment (Some i) w) =
             \<lparr>baseEnvironment = Some b, selectedEnvironmentId = Some (env_id b)\<rparr>"
  using assms by (simp add: handleDeleteEnvironment_def Let_def)

theorem handleDeleteEnvironment_active_witness:
  "workspaceMeta scenarioWorld = Some metaA
   \<and> activeEnvironmentId metaA = Some ''env_A''
   \<and> baseEnvironment (state scenarioWorld) = Some envBase
   \<and> env_id envBase = ''env_base''
   \<and> find (\<lambda>r. env_id (heap scenarioWorld r) = ''env_A'') (environments scenarioWorld) = Some 1
   \<and> heap scenarioWorld 1 = envA
   \<and> issued scenarioWorld (handleDeleteEnvironment (Some ''env_A'') scenarioWorld) =
       [WorkspaceMetaUpdate metaA None, EnvironmentRemove envA,
        SetState \<lparr>baseEnvironment = Some envBase, selectedEnvironmentId = Some ''env_base''\<rparr>]
   \<and> selectedEnvironmentId (state (handleDeleteEnvironment (Some ''env_A'') scenarioWorld)) =
       Some ''env_base''"
  using handleDeleteEnvironment_active [of scenarioWorld metaA "''env_A''" envBase 1]
  by (simp add: scenarioWorld_def metaA_def envA_def envBase_def envB_def)

text \<open>
  C10. Deleting an id that is a non-empty string, is not the id of the base
  environment and belongs to no environment of the observed list: no removal is
  issued; the active-environment id of the workspace metadata is still set to
  \<^verbatim>\<open>null\<close> when it equals the id; and the selection is still reset to
  \<^verbatim>\<open>state.baseEnvironment?._id || null\<close>, which is the id of the base environment when
  one is loaded.
\<close>

theorem handleDeleteEnvironment_unlisted:
  assumes nonnull: "i \<noteq> []"
    and notbase: "\<not> strict_eq (Some i) (chain (baseEnvironment (state w)) env_id)"
    and unlisted: "find (\<lambda>r. env_id (heap w r) = i) (environments w) = None"
  shows "issued w (handleDeleteEnvironment (Some i) w) =
           (case workspaceMeta w of
              None \<Rightarrow> []
            | Some m \<Rightarrow> if activeEnvironmentId m = Some i then [WorkspaceMetaUpdate m None] else [])
           @ [SetState (state (handleDeleteEnvironment (Some i) w))]
         \<and> state (handleDeleteEnvironment (Some i) w) =
             (state w)\<lparr>selectedEnvironmentId := or_null (chain (baseEnvironment (state w)) env_id)\<rparr>
         \<and> (\<forall>b. baseEnvironment (state w) = Some b \<and> env_id b \<noteq> [] \<longrightarrow>
               selectedEnvironmentId (state (handleDeleteEnvironment (Some i) w)) = Some (env_id b))"
  using assms
  by (auto simp: handleDeleteEnvironment_def Let_def split: option.splits)

theorem handleDeleteEnvironment_unlisted_witness:
  "\<not> strict_eq (Some ''env_gone'') (chain (baseEnvironment (state goneWorld)) env_id)
   \<and> find (\<lambda>r. env_id (heap goneWorld r) = ''env_gone'') (environments goneWorld) = None
   \<and> workspaceMeta goneWorld = Some metaGone
   \<and> activeEnvironmentId metaGone = Some ''env_gone''
   \<and> baseEnvironment (state goneWorld) = Some envBase
   \<and> issued goneWorld (handleDeleteEnvironment (Some ''env_gone'') goneWorld) =
       [WorkspaceMetaUpdate metaGone None,
        SetState \<lparr>baseEnvironment = Some envBase, selectedEnvironmentId = Some ''env_base''\<rparr>]
   \<and> selectedEnvironmentId (state (handleDeleteEnvironment (Some ''env_gone'') goneWorld)) =
       Some (env_id envBase)"
  using handleDeleteEnvironment_unlisted [of "''env_gone''" goneWorld]
  by (simp add: goneWorld_def scenarioWorld_def metaGone_def envA_def envBase_def envB_def)

section \<open>The list of sub-environments\<close>

lemma subEnvironments_parent:
  "r \<in> set (subEnvironments w) \<Longrightarrow>
     parentId (heap w r) = map_option env_id (baseEnvironment (state w))"
  by (simp add: subEnvironments_def)

text \<open>
  C6. The list handed to the reorderable list box is \<^verbatim>\<open>subEnvironments\<close>. With a
  base environment loaded it holds exactly the observed environments whose parent id
  is the id of the base environment, each as often as the observed list holds it, in
  ascending order of the sort key. The base environment is not in it: its record is
  not, since the base environment is not its own parent (its parent is the workspace),
  and no entry carries its id when no observed environment is its own parent.
\<close>

theorem subEnvironments_exact_sorted:
  assumes base: "baseEnvironment (state w) = Some b"
  shows "mset (subEnvironments w) =
           mset (filter (\<lambda>r. parentId (heap w r) = Some (env_id b)) (environments w))
         \<and> sorted (map (\<lambda>r. metaSortKey (heap w r)) (subEnvironments w))
         \<and> (parentId b \<noteq> Some (env_id b) \<longrightarrow> b \<notin> set (map (heap w) (subEnvironments w)))
         \<and> ((\<forall>r \<in> set (environments w). parentId (heap w r) \<noteq> Some (env_id (heap w r))) \<longrightarrow>
              (\<forall>r \<in> set (subEnvironments w). env_id (heap w r) \<noteq> env_id b))"
proof -
  have exact: "mset (subEnvironments w) =
      mset (filter (\<lambda>r. parentId (heap w r) = Some (env_id b)) (environments w))"
    using base by (simp add: subEnvironments_def)
  have asc: "sorted (map (\<lambda>r. metaSortKey (heap w r)) (subEnvironments w))"
    unfolding subEnvironments_def by (rule sorted_sort_key)
  have par: "parentId (heap w r) = Some (env_id b)" if "r \<in> set (subEnvironments w)" for r
    using subEnvironments_parent [OF that] base by simp
  have rec: "parentId b \<noteq> Some (env_id b) \<longrightarrow> b \<notin> set (map (heap w) (subEnvironments w))"
    using par by auto
  have ids: "(\<forall>r \<in> set (environments w). parentId (heap w r) \<noteq> Some (env_id (heap w r))) \<longrightarrow>
      (\<forall>r \<in> set (subEnvironments w). env_id (heap w r) \<noteq> env_id b)"
  proof (intro impI ballI)
    fix r
    assume wf: "\<forall>r \<in> set (environments w). parentId (heap w r) \<noteq> Some (env_id (heap w r))"
      and r: "r \<in> set (subEnvironments w)"
    from r have "r \<in> set (environments w)" by (simp add: subEnvironments_def)
    with wf have "parentId (heap w r) \<noteq> Some (env_id (heap w r))" by blast
    with par [OF r] show "env_id (heap w r) \<noteq> env_id b" by auto
  qed
  from exact asc rec ids show ?thesis by blast
qed

theorem subEnvironments_exact_sorted_witness:
  "baseEnvironment (state scenarioWorld) = Some envBase
   \<and> parentId envBase \<noteq> Some (env_id envBase)
   \<and> list_all (\<lambda>r. parentId (heap scenarioWorld r) \<noteq> Some (env_id (heap scenarioWorld r)))
        (environments scenarioWorld)
   \<and> subEnvironments scenarioWorld = [1, 2]
   \<and> map (heap scenarioWorld) (subEnvironments scenarioWorld) = [envA, envB]
   \<and> envBase \<notin> set (map (heap scenarioWorld) (subEnvironments scenarioWorld))
   \<and> list_all (\<lambda>r. env_id (heap scenarioWorld r) \<noteq> env_id envBase) (subEnvironments scenarioWorld)
   \<and> sorted (map (\<lambda>r. metaSortKey (heap scenarioWorld r)) (subEnvironments scenarioWorld))"
  using subEnvironments_exact_sorted [of scenarioWorld envBase]
  by (simp add: scenarioWorld_def subEnvironments_def envBase_def envA_def envB_def)

section \<open>Persisting a patch\<close>


section \<open>Reordering\<close>

lemma onReorder_found:
  assumes keys: "keys e = k # ks"
    and src: "find (\<lambda>r. env_id (heap w r) = k) (subEnvironments w) = Some s"
    and tgt: "find (\<lambda>r. env_id (heap w r) = target_key e) (subEnvironments w) = Some t"
  shows "onReorder st e w =
           (let key' = (case dropPosition e of
                          Before \<Rightarrow> js_sub (metaSortKey (heap w t)) 1
                        | After \<Rightarrow> js_add (metaSortKey (heap w t)) 1
                        | On \<Rightarrow> metaSortKey (heap w s));
                w2 = w\<lparr>heap := (heap w)(s := (heap w s)\<lparr>metaSortKey := key'\<rparr>)\<rparr>
            in updateEnvironment st (Some (env_id (heap w s))) (PatchMetaSortKey key') w2)"
proof -
  have eq: "(\<lambda>r. strict_eq (Some (env_id (heap w r))) (Defined k)) = (\<lambda>r. env_id (heap w r) = k)"
    by (rule ext) simp
  show ?thesis
    using keys src tgt
    by (cases "dropPosition e") (simp_all add: onReorder_def eq Let_def)
qed

lemma updateEnvironment_frame:
  "heap (updateEnvironment st i patch w) = heap w"
  by (simp add: updateEnvironment_def Let_def split: option.splits)

lemma updateEnvironment_issued:
  "issued w (updateEnvironment st (Some i) patch w) =
     EnvironmentGetById i #
     (case models_environment_getById st i of
        None \<Rightarrow> []
      | Some fetched \<Rightarrow>
          EnvironmentUpdate fetched patch #
          (if strict_eq (parentId fetched) (chain (workspace w) workspace_id)
           then [SetState ((state w)\<lparr>baseEnvironment :=
                   Some (models_environment_update st fetched patch)\<rparr>)]
           else []))"
  by (simp add: updateEnvironment_def Let_def split: option.splits)

lemma issued_heap_update [simp]: "issued (w\<lparr>heap := h\<rparr>) w' = issued w w'"
  by (simp add: issued_def)

lemma find_holds: "find P xs = Some x \<Longrightarrow> P x"
  by (auto simp: find_Some_iff)

text \<open>
  C1. A reorder event whose first dragged key and whose target key both name entries
  of the sub-environment list. After the handler the dragged environment holds, for a
  drop \<^verbatim>\<open>before\<close>, the number \<^verbatim>\<open>targetEnv.metaSortKey - 1\<close>, and for a drop
  \<^verbatim>\<open>after\<close>, the number \<^verbatim>\<open>targetEnv.metaSortKey + 1\<close>, the target key read as it was
  when the event arrived; for a whole-numbered target key below \<open>2 ^ 53\<close> in magnitude
  that is exactly the key minus 1 and the key plus 1. A drop \<^verbatim>\<open>on\<close> the target
  keeps the key. Nothing else in the heap changes. The calls the handler issues are exactly these: it fetches the dragged
  environment by id and, when the store still holds it, asks the store to update the
  fetched record with the sort key the dragged environment now holds (followed by the
  reload of the base environment when the fetched record is a child of the
  workspace). In the scenario of the spec, dropping A (1) after B (2) gives A the sort
  key 3, and the list of the next render is B (2), A (3).
\<close>

theorem onReorder_sort_key:
  assumes keys: "keys e = k # ks"
    and src: "find (\<lambda>r. env_id (heap w r) = k) (subEnvironments w) = Some s"
    and tgt: "find (\<lambda>r. env_id (heap w r) = target_key e) (subEnvironments w) = Some t"
  shows "(dropPosition e = Before \<longrightarrow>
            metaSortKey (heap (onReorder st e w) s) = js_sub (metaSortKey (heap w t)) 1)
         \<and> (dropPosition e = After \<longrightarrow>
            metaSortKey (heap (onReorder st e w) s) = js_add (metaSortKey (heap w t)) 1)
         \<and> (dropPosition e = On \<longrightarrow>
            metaSortKey (heap (onReorder st e w) s) = metaSortKey (heap w s))
         \<and> (\<forall>n. metaSortKey (heap w t) = of_int n \<and> \<bar>n\<bar> < 2 ^ 53 \<longrightarrow>
              (dropPosition e = Before \<longrightarrow>
                 metaSortKey (heap (onReorder st e w) s) = metaSortKey (heap w t) - 1)
              \<and> (dropPosition e = After \<longrightarrow>
                 metaSortKey (heap (onReorder st e w) s) = metaSortKey (heap w t) + 1))
         \<and> heap (onReorder st e w) =
             (heap w)(s := (heap w s)\<lparr>metaSortKey := metaSortKey (heap (onReorder st e w) s)\<rparr>)
         \<and> issued w (onReorder st e w) =
             EnvironmentGetById k #
             (case models_environment_getById st k of
                None \<Rightarrow> []
              | Some fetched \<Rightarrow>
                  EnvironmentUpdate fetched
                    (PatchMetaSortKey (metaSortKey (heap (onReorder st e w) s))) #
                  (if strict_eq (parentId fetched) (chain (workspace w) workspace_id)
                   then [SetState ((state w)\<lparr>baseEnvironment :=
                           Some (models_environment_update st fetched
                             (PatchMetaSortKey (metaSortKey (heap (onReorder st e w) s))))\<rparr>)]
                   else []))
         \<and> metaSortKey (heap (onReorder scenarioStore dragAafterB scenarioWorld) 1) = 3
         \<and> map (\<lambda>r. (name (heap (onReorder scenarioStore dragAafterB scenarioWorld) r),
                      metaSortKey (heap (onReorder scenarioStore dragAafterB scenarioWorld) r)))
              (subEnvironments (onReorder scenarioStore dragAafterB scenarioWorld)) =
             [(''B'', 2), (''A'', 3)]"
proof -
  define key' where "key' =
    (case dropPosition e of
       Before \<Rightarrow> js_sub (metaSortKey (heap w t)) 1
     | After \<Rightarrow> js_add (metaSortKey (heap w t)) 1
     | On \<Rightarrow> metaSortKey (heap w s))"
  define w2 where "w2 = w\<lparr>heap := (heap w)(s := (heap w s)\<lparr>metaSortKey := key'\<rparr>)\<rparr>"
  from src have k: "env_id (heap w s) = k" by (rule find_holds)
  have run: "onReorder st e w = updateEnvironment st (Some k) (PatchMetaSortKey key') w2"
    by (simp add: onReorder_found [OF keys src tgt] k key'_def w2_def Let_def)
  have hp: "heap (onReorder st e w) = (heap w)(s := (heap w s)\<lparr>metaSortKey := key'\<rparr>)"
    by (simp add: run updateEnvironment_frame w2_def)
  then have stored: "metaSortKey (heap (onReorder st e w) s) = key'"
    by simp
  have before: "dropPosition e = Before \<longrightarrow>
      metaSortKey (heap (onReorder st e w) s) = js_sub (metaSortKey (heap w t)) 1"
    by (simp add: stored key'_def)
  have after: "dropPosition e = After \<longrightarrow>
      metaSortKey (heap (onReorder st e w) s) = js_add (metaSortKey (heap w t)) 1"
    by (simp add: stored key'_def)
  have on: "dropPosition e = On \<longrightarrow>
      metaSortKey (heap (onReorder st e w) s) = metaSortKey (heap w s)"
    by (simp add: stored key'_def)
  have exact: "\<forall>n. metaSortKey (heap w t) = of_int n \<and> \<bar>n\<bar> < 2 ^ 53 \<longrightarrow>
      (dropPosition e = Before \<longrightarrow>
         metaSortKey (heap (onReorder st e w) s) = metaSortKey (heap w t) - 1)
      \<and> (dropPosition e = After \<longrightarrow>
         metaSortKey (heap (onReorder st e w) s) = metaSortKey (heap w t) + 1)"
    using before after by (auto simp: js_sub_int_exact js_add_int_exact)
  have frame: "heap (onReorder st e w) =
      (heap w)(s := (heap w s)\<lparr>metaSortKey := metaSortKey (heap (onReorder st e w) s)\<rparr>)"
    using hp stored by simp
  have "issued w2 (onReorder st e w) =
      EnvironmentGetById k #
      (case models_environment_getById st k of
         None \<Rightarrow> []
       | Some fetched \<Rightarrow>
           EnvironmentUpdate fetched (PatchMetaSortKey key') #
           (if strict_eq (parentId fetched) (chain (workspace w2) workspace_id)
            then [SetState ((state w2)\<lparr>baseEnvironment :=
                    Some (models_environment_update st fetched (PatchMetaSortKey key'))\<rparr>)]
            else []))"
    unfolding run by (rule updateEnvironment_issued)
  then have calls: "issued w (onReorder st e w) =
      EnvironmentGetById k #
      (case models_environment_getById st k of
         None \<Rightarrow> []
       | Some fetched \<Rightarrow>
           EnvironmentUpdate fetched
             (PatchMetaSortKey (metaSortKey (heap (onReorder st e w) s))) #
           (if strict_eq (parentId fetched) (chain (workspace w) workspace_id)
            then [SetState ((state w)\<lparr>baseEnvironment :=
                    Some (models_environment_update st fetched
                      (PatchMetaSortKey (metaSortKey (heap (onReorder st e w) s))))\<rparr>)]
            else []))"
    by (cases "models_environment_getById st k") (simp_all add: stored w2_def)
  have a3: "metaSortKey (heap (onReorder scenarioStore dragAafterB scenarioWorld) 1) = 3"
    by (simp add: onReorder_def updateEnvironment_def subEnvironments_def scenarioWorld_def
          scenarioStore_def dragAafterB_def envBase_def envA_def envB_def Let_def js_add_2_1)
  have order: "map (\<lambda>r. (name (heap (onReorder scenarioStore dragAafterB scenarioWorld) r),
                      metaSortKey (heap (onReorder scenarioStore dragAafterB scenarioWorld) r)))
              (subEnvironments (onReorder scenarioStore dragAafterB scenarioWorld)) =
             [(''B'', 2), (''A'', 3)]"
    by (simp add: onReorder_def updateEnvironment_def subEnvironments_def scenarioWorld_def
          scenarioStore_def dragAafterB_def envBase_def envA_def envB_def Let_def js_add_2_1)
  from before after on exact frame calls a3 order show ?thesis by blast
qed

theorem onReorder_sort_key_witness:
  "keys dragAafterB = [''env_A'']
   \<and> find (\<lambda>r. env_id (heap scenarioWorld r) = ''env_A'') (subEnvironments scenarioWorld) = Some 1
   \<and> find (\<lambda>r. env_id (heap scenarioWorld r) = target_key dragAafterB)
        (subEnvironments scenarioWorld) = Some 2
   \<and> dropPosition dragAafterB = After
   \<and> metaSortKey (heap scenarioWorld 1) = 1
   \<and> metaSortKey (heap scenarioWorld 2) = of_int 2
   \<and> metaSortKey (heap (onReorder scenarioStore dragAafterB scenarioWorld) 1) = 2 + 1
   \<and> heap (onReorder scenarioStore dragAafterB scenarioWorld) =
       (heap scenarioWorld)(1 := envA\<lparr>metaSortKey := 3\<rparr>)
   \<and> issued scenarioWorld (onReorder scenarioStore dragAafterB scenarioWorld) =
       [EnvironmentGetById ''env_A'', EnvironmentUpdate envA (PatchMetaSortKey 3)]
   \<and> dropPosition dragAbeforeB = Before
   \<and> metaSortKey (heap (onReorder scenarioStore dragAbeforeB scenarioWorld) 1) = 2 - 1
   \<and> issued scenarioWorld (onReorder scenarioStore dragAbeforeB scenarioWorld) =
       [EnvironmentGetById ''env_A'', EnvironmentUpdate envA (PatchMetaSortKey 1)]"
  using onReorder_sort_key [of dragAafterB "''env_A''" "[]" scenarioWorld 1 2 scenarioStore]
    onReorder_sort_key [of dragAbeforeB "''env_A''" "[]" scenarioWorld 1 2 scenarioStore]
  by (simp add: onReorder_def updateEnvironment_def Let_def subEnvironments_def
        scenarioWorld_def scenarioStore_def dragAafterB_def dragAbeforeB_def
        envBase_def envA_def envB_def js_add_2_1 js_sub_2_1)

section \<open>Unsetting the colour\<close>



end
